theory Spec2Isabelle
  imports Main "HOL-Library.Word" "HOL-Library.AList"
begin

unbundle bit_operations_syntax

section \<open>bleep: GATT attributes, characteristics and descriptors\<close>

text \<open>
  A shallow embedding of \<^verbatim>\<open>bleep/characteristic.py\<close>: the classes
  \<^verbatim>\<open>BLEAttribute\<close>, \<^verbatim>\<open>BLEDescriptor\<close> and \<^verbatim>\<open>BLECharacteristic\<close>.
  The module is read as Python 3: a class statement without bases derives from
  \<^verbatim>\<open>object\<close>, and \<^verbatim>\<open>super(C, self)\<close> resolves to the class after \<^verbatim>\<open>C\<close> in the
  method resolution order of \<^verbatim>\<open>type(self)\<close>.

  Exceptions are values: every operation that can raise returns \<open>exn + 'a\<close>, with \<open>Inl\<close>
  the exception raised. Instances live in a store and are named by references, so that
  the device's registry and a characteristic's buckets hold the objects themselves. The
  device and its requester are outside the module; they are a stub whose replies are
  functions of the calls it has received so far, and which logs every call.
\<close>

subsection \<open>Exceptions\<close>

datatype exn =
    TypeError string
  | AttributeError string
  | UnboundLocalError string
  | RuntimeError string
  | RuntimeErrorSubclass string string
  | ValueError string
  | OtherError string

text \<open>
  \<open>RuntimeErrorSubclass c m\<close> is an instance, with message \<open>m\<close>, of the class named \<open>c\<close>
  derived from \<^verbatim>\<open>RuntimeError\<close>: \<^verbatim>\<open>NotImplementedError\<close>, \<^verbatim>\<open>RecursionError\<close>, or a class a
  library defines. \<open>OtherError\<close> is an instance of a class that derives from none of the
  classes above.

  The test made by \<^verbatim>\<open>except RuntimeError:\<close>: it holds of the instances of
  \<^verbatim>\<open>RuntimeError\<close> and of the classes derived from it.
\<close>

fun is_RuntimeError :: "exn \<Rightarrow> bool" where
  "is_RuntimeError (RuntimeError m) = True"
| "is_RuntimeError (RuntimeErrorSubclass c m) = True"
| "is_RuntimeError e = False"

subsection \<open>UUIDs and their textual form\<close>

text \<open>
  A \<^verbatim>\<open>uuid.UUID\<close> is its 128-bit integer. \<^verbatim>\<open>str(u)\<close> is the standard library's
  \<^verbatim>\<open>hex = '%032x' % self.int\<close> followed by
  \<^verbatim>\<open>'%s-%s-%s-%s-%s' % (hex[:8], hex[8:12], hex[12:16], hex[16:20], hex[20:])\<close>.
\<close>

type_synonym uuid = "128 word"

definition hexdigits :: string where
  "hexdigits = ''0123456789abcdef''"

text \<open>The \<open>k\<close>-th hexadecimal digit of a word, counted from the least significant one.\<close>

definition nibble :: "'a::len word \<Rightarrow> nat \<Rightarrow> nat" where
  "nibble w k = unat (drop_bit (4 * k) w AND 15)"

text \<open>\<^verbatim>\<open>'%0nx' % w\<close>: \<open>n\<close> lower-case digits, most significant first.\<close>

definition hex_of :: "nat \<Rightarrow> 'a::len word \<Rightarrow> string" where
  "hex_of n w = map (\<lambda>i. hexdigits ! nibble w (n - 1 - i)) [0..<n]"

text \<open>The slice \<^verbatim>\<open>xs[i:j]\<close> for \<open>0 \<le> i \<le> j\<close>; like Python's, it stops at the end of \<open>xs\<close>.\<close>

definition py_slice :: "nat \<Rightarrow> nat \<Rightarrow> 'a list \<Rightarrow> 'a list" where
  "py_slice i j xs = take (j - i) (drop i xs)"

definition str_uuid :: "uuid \<Rightarrow> string" where
  "str_uuid u =
     (let hex = hex_of 32 u
      in py_slice 0 8 hex @ ''-'' @ py_slice 8 12 hex @ ''-'' @ py_slice 12 16 hex @ ''-'' @
         py_slice 16 20 hex @ ''-'' @ drop 20 hex)"

text \<open>
  Modelled from the spec: \<^verbatim>\<open>is_short_uuid\<close> is imported from \<^verbatim>\<open>bleep/util.py\<close>, which
  is not among the sources. Section 4.1: the UUID has the form
  \<^verbatim>\<open>0000XXXX-0000-1000-8000-00805F9B34FB\<close>, an exact match on the 96 bits around the
  16-bit segment.
\<close>

definition bluetooth_base :: uuid where
  "bluetooth_base = 0x0000000000001000800000805F9B34FB"

definition is_short_uuid :: "uuid \<Rightarrow> bool" where
  "is_short_uuid u \<longleftrightarrow> u AND NOT (push_bit 96 0xFFFF) = bluetooth_base"

text \<open>The instance of the Bluetooth base UUID whose 16-bit segment is \<open>x\<close>.\<close>

definition bluetooth_uuid :: "16 word \<Rightarrow> uuid" where
  "bluetooth_uuid x = bluetooth_base OR push_bit 96 (ucast x)"

subsection \<open>Objects, the device stub and the store\<close>

type_synonym ref = nat
type_synonym bytes = "8 word list"

text \<open>
  A callback is a Python callable taking the payload. What the module can observe of a
  call is whether it returns or raises.
\<close>

record callback =
  cb_name :: string
  cb_outcome :: "bytes \<Rightarrow> exn option"

text \<open>
  The string under \<^verbatim>\<open>'uuid'\<close> in a discovered pair, by what the standard library's
  \<^verbatim>\<open>UUID(...)\<close> makes of it: the UUID it denotes, or \<^verbatim>\<open>ValueError\<close> for a badly
  formed string.
\<close>

datatype uuid_text = Hex uuid | Malformed string

fun UUID :: "uuid_text \<Rightarrow> exn + uuid" where
  "UUID (Hex u) = Inr u"
| "UUID (Malformed t) = Inl (ValueError ''badly formed hexadecimal UUID string'')"

text \<open>An element of the sequence the requester returns: \<^verbatim>\<open>{'handle': h, 'uuid': t}\<close>.\<close>

record item =
  item_handle :: int
  item_uuid :: uuid_text

datatype pyclass = BLEAttribute | BLEDescriptor | BLECharacteristic

text \<open>
  What \<^verbatim>\<open>_discover_descriptors\<close> returns and \<^verbatim>\<open>self._descriptors\<close> holds: a dict from
  UUID to a list of descriptors (an association list, keys in insertion order), or a
  single instance.
\<close>

datatype pyvalue = Dict "(uuid \<times> ref list) list" | Instance ref

text \<open>
  Modelled from the spec: \<^verbatim>\<open>UUIDAccessor\<close> is imported from \<^verbatim>\<open>bleep/util.py\<close>, which
  is not among the sources. The constructor keeps the table it is given and the flag
  that selects the list view; list mode returns the whole bucket (empty when the key is
  absent), unique mode fails with \<open>NotFound\<close> or \<open>AmbiguousKey\<close> (section 4.2).
\<close>

record UUIDAccessor =
  accessor_table :: pyvalue
  return_all :: bool

datatype lookup_error = NotFound | AmbiguousKey

definition get_all :: "(uuid \<times> ref list) list \<Rightarrow> uuid \<Rightarrow> ref list" where
  "get_all table u = (case map_of table u of None \<Rightarrow> [] | Some bucket \<Rightarrow> bucket)"

definition get_unique :: "(uuid \<times> ref list) list \<Rightarrow> uuid \<Rightarrow> lookup_error + ref" where
  "get_unique table u =
     (case get_all table u of
        [] \<Rightarrow> Inl NotFound
      | [a] \<Rightarrow> Inr a
      | _ \<Rightarrow> Inl AmbiguousKey)"

text \<open>
  An instance is its attribute dictionary; \<open>None\<close> is an attribute that has not been
  assigned, and reading it raises \<^verbatim>\<open>AttributeError\<close>.
\<close>

record pyobject =
  cls :: pyclass
  device :: "ref option"
  value_handle :: "int option"
  uuid :: "uuid option"
  notification_callbacks :: "callback list option"
  indication_callbacks :: "callback list option"
  handle :: "int option"
  end_handle :: "int option"
  properties :: "int option"
  priv_descriptors :: "pyvalue option"
  descriptor :: "UUIDAccessor option"
  descriptors :: "UUIDAccessor option"

definition new_object :: "pyclass \<Rightarrow> pyobject" where
  "new_object c =
     \<lparr>cls = c, device = None, value_handle = None, uuid = None,
      notification_callbacks = None, indication_callbacks = None,
      handle = None, end_handle = None, properties = None,
      priv_descriptors = None, descriptor = None, descriptors = None\<rparr>"

definition getattr :: "('o \<Rightarrow> 'a option) \<Rightarrow> string \<Rightarrow> 'o \<Rightarrow> exn + 'a" where
  "getattr field name obj =
     (case field obj of None \<Rightarrow> Inl (AttributeError name) | Some v \<Rightarrow> Inr v)"

text \<open>The calls a device and its requester receive.\<close>

datatype call =
    RegisterHandle int ref
  | ReadHandle int
  | WriteHandle int bytes bool
  | DiscoverDescriptors int int

text \<open>
  The device: its handle registry, the log of the calls made to it, and its replies. A
  reply is a function of the calls received before. \<open>discover_reply\<close> gives the pairs the
  returned sequence yields and the exception, if any, that ends it (with no pairs when
  the call itself raises).
\<close>

record BLEDevice =
  handles :: "int \<rightharpoonup> ref"
  calls :: "call list"
  register_fault :: "call list \<Rightarrow> int \<Rightarrow> exn option"
  read_reply :: "call list \<Rightarrow> int \<Rightarrow> exn + bytes"
  write_reply :: "call list \<Rightarrow> int \<Rightarrow> bytes \<Rightarrow> bool \<Rightarrow> exn + unit"
  discover_reply :: "call list \<Rightarrow> int \<Rightarrow> int \<Rightarrow> item list \<times> exn option"

record world =
  devices :: "ref \<Rightarrow> BLEDevice"
  objects :: "ref \<Rightarrow> pyobject"
  next_ref :: ref

definition log_call :: "ref \<Rightarrow> call \<Rightarrow> world \<Rightarrow> world" where
  "log_call dev c s =
     s\<lparr>devices := (devices s)(dev := (devices s dev)\<lparr>calls := calls (devices s dev) @ [c]\<rparr>)\<rparr>"

text \<open>
  Modelled from the spec: \<^verbatim>\<open>register_handle\<close> is a method of the device class, which is
  not among the sources. Section 6: it records the mapping from the handle to the
  attribute. The stub can also raise: line 178 of the module handles a
  \<^verbatim>\<open>RuntimeError\<close> raised while a descriptor is constructed, and this call is the only
  one a constructor makes.
\<close>

definition register_handle :: "ref \<Rightarrow> int \<Rightarrow> ref \<Rightarrow> world \<Rightarrow> (exn + unit) \<times> world" where
  "register_handle dev h a s =
     (let d = devices s dev; s1 = log_call dev (RegisterHandle h a) s
      in case register_fault d (calls d) h of
           Some e \<Rightarrow> (Inl e, s1)
         | None \<Rightarrow>
             (Inr (), s1\<lparr>devices := (devices s1)(dev := (devices s1 dev)\<lparr>handles := (handles d)(h \<mapsto> a)\<rparr>)\<rparr>))"

text \<open>The transport operations of section 6, answered by the stub.\<close>

definition read_handle :: "ref \<Rightarrow> int \<Rightarrow> world \<Rightarrow> (exn + bytes) \<times> world" where
  "read_handle dev h s =
     (let d = devices s dev in (read_reply d (calls d) h, log_call dev (ReadHandle h) s))"

definition write_handle :: "ref \<Rightarrow> int \<Rightarrow> bytes \<Rightarrow> bool \<Rightarrow> world \<Rightarrow> (exn + unit) \<times> world" where
  "write_handle dev h data response s =
     (let d = devices s dev
      in (write_reply d (calls d) h data response, log_call dev (WriteHandle h data response) s))"

definition requester_discover_descriptors ::
    "ref \<Rightarrow> int \<Rightarrow> int \<Rightarrow> world \<Rightarrow> (item list \<times> exn option) \<times> world" where
  "requester_discover_descriptors dev start end_h s =
     (let d = devices s dev
      in (discover_reply d (calls d) start end_h, log_call dev (DiscoverDescriptors start end_h) s))"

text \<open>Allocation of an instance (\<^verbatim>\<open>object.__new__\<close>) and assignment to its attributes.\<close>

definition alloc :: "pyclass \<Rightarrow> world \<Rightarrow> ref \<times> world" where
  "alloc c s =
     (next_ref s, s\<lparr>objects := (objects s)(next_ref s := new_object c), next_ref := Suc (next_ref s)\<rparr>)"

definition setattrs :: "ref \<Rightarrow> (pyobject \<Rightarrow> pyobject) \<Rightarrow> world \<Rightarrow> world" where
  "setattrs self f s = s\<lparr>objects := (objects s)(self := f (objects s self))\<rparr>"

subsection \<open>BLEAttribute\<close>

text \<open>
  \<^verbatim>\<open>BLEAttribute.__init__(self, device, handle, uuid)\<close>, lines 47 to 56: the three
  assignments, the registration with the device (line 52 reads back \<^verbatim>\<open>self.device\<close> and
  \<^verbatim>\<open>self.value_handle\<close>, just assigned), then the two empty callback lists. An
  exception raised by the registration leaves the callback lists unassigned.
\<close>

definition BLEAttribute_init :: "ref \<Rightarrow> ref \<Rightarrow> int \<Rightarrow> uuid \<Rightarrow> world \<Rightarrow> (exn + unit) \<times> world" where
  "BLEAttribute_init self dev h u s =
     (let s1 = setattrs self (\<lambda>obj. obj\<lparr>device := Some dev, value_handle := Some h, uuid := Some u\<rparr>) s
      in case register_handle dev h self s1 of
           (Inl e, s2) \<Rightarrow> (Inl e, s2)
         | (Inr _, s2) \<Rightarrow>
             (Inr (), setattrs self
                (\<lambda>obj. obj\<lparr>notification_callbacks := Some [], indication_callbacks := Some []\<rparr>) s2))"

text \<open>The call \<^verbatim>\<open>BLEAttribute(device, handle, uuid)\<close>: allocate, initialise, return the instance.\<close>

definition new_BLEAttribute :: "ref \<Rightarrow> int \<Rightarrow> uuid \<Rightarrow> world \<Rightarrow> (exn + ref) \<times> world" where
  "new_BLEAttribute dev h u s =
     (let (self, s1) = alloc BLEAttribute s
      in case BLEAttribute_init self dev h u s1 of
           (Inl e, s2) \<Rightarrow> (Inl e, s2)
         | (Inr _, s2) \<Rightarrow> (Inr self, s2))"

text \<open>\<^verbatim>\<open>shortest_uuid\<close>, lines 64 to 67.\<close>

definition BLEAttribute_shortest_uuid :: "pyobject \<Rightarrow> exn + string" where
  "BLEAttribute_shortest_uuid self =
     (case getattr uuid ''uuid'' self of
        Inl e \<Rightarrow> Inl e
      | Inr u \<Rightarrow> if is_short_uuid u then Inr (py_slice 4 8 (str_uuid u)) else Inr (str_uuid u))"

text \<open>\<^verbatim>\<open>read\<close> and \<^verbatim>\<open>write\<close>, lines 75 and 85.\<close>

definition BLEAttribute_read :: "pyobject \<Rightarrow> world \<Rightarrow> (exn + bytes) \<times> world" where
  "BLEAttribute_read self s =
     (case getattr device ''device'' self of
        Inl e \<Rightarrow> (Inl e, s)
      | Inr dev \<Rightarrow>
          (case getattr value_handle ''value_handle'' self of
             Inl e \<Rightarrow> (Inl e, s)
           | Inr h \<Rightarrow> read_handle dev h s))"

definition BLEAttribute_write :: "pyobject \<Rightarrow> bytes \<Rightarrow> bool \<Rightarrow> world \<Rightarrow> (exn + unit) \<times> world" where
  "BLEAttribute_write self data response s =
     (case getattr device ''device'' self of
        Inl e \<Rightarrow> (Inl e, s)
      | Inr dev \<Rightarrow>
          (case getattr value_handle ''value_handle'' self of
             Inl e \<Rightarrow> (Inl e, s)
           | Inr h \<Rightarrow> write_handle dev h data response s))"

text \<open>\<^verbatim>\<open>notify\<close> and \<^verbatim>\<open>indicate\<close>, lines 94 and 103: append to the list.\<close>

definition BLEAttribute_notify :: "pyobject \<Rightarrow> callback \<Rightarrow> exn + pyobject" where
  "BLEAttribute_notify self f =
     (case getattr notification_callbacks ''_notification_callbacks'' self of
        Inl e \<Rightarrow> Inl e
      | Inr cbs \<Rightarrow> Inr (self\<lparr>notification_callbacks := Some (cbs @ [f])\<rparr>))"

definition BLEAttribute_indicate :: "pyobject \<Rightarrow> callback \<Rightarrow> exn + pyobject" where
  "BLEAttribute_indicate self f =
     (case getattr indication_callbacks ''_indication_callbacks'' self of
        Inl e \<Rightarrow> Inl e
      | Inr cbs \<Rightarrow> Inr (self\<lparr>indication_callbacks := Some (cbs @ [f])\<rparr>))"

text \<open>
  The loop \<^verbatim>\<open>for callback in cbs: callback(data)\<close> of lines 106 to 107 and 110 to 111.
  It returns the calls it made, in order, and the exception that ended it, if one did:
  nothing catches what a callback raises.
\<close>

fun call_each :: "callback list \<Rightarrow> bytes \<Rightarrow> (callback \<times> bytes) list \<times> exn option" where
  "call_each [] data = ([], None)"
| "call_each (cb # cbs) data =
     (case cb_outcome cb data of
        Some e \<Rightarrow> ([(cb, data)], Some e)
      | None \<Rightarrow> (let (made, r) = call_each cbs data in ((cb, data) # made, r)))"

definition BLEAttribute_on_notification :: "pyobject \<Rightarrow> bytes \<Rightarrow> (callback \<times> bytes) list \<times> exn option" where
  "BLEAttribute_on_notification self data =
     (case getattr notification_callbacks ''_notification_callbacks'' self of
        Inl e \<Rightarrow> ([], Some e)
      | Inr cbs \<Rightarrow> call_each cbs data)"

definition BLEAttribute_on_indication :: "pyobject \<Rightarrow> bytes \<Rightarrow> (callback \<times> bytes) list \<times> exn option" where
  "BLEAttribute_on_indication self data =
     (case getattr indication_callbacks ''_indication_callbacks'' self of
        Inl e \<Rightarrow> ([], Some e)
      | Inr cbs \<Rightarrow> call_each cbs data)"

subsection \<open>BLEDescriptor\<close>

text \<open>
  Line 116 gives \<^verbatim>\<open>BLEDescriptor\<close> the base \<^verbatim>\<open>BLEAttribute\<close>, so the call
  \<^verbatim>\<open>super(BLEDescriptor, self).__init__(device, handle, uuid)\<close> of line 127 runs
  \<^verbatim>\<open>BLEAttribute.__init__\<close>.
\<close>

definition BLEDescriptor_init :: "ref \<Rightarrow> ref \<Rightarrow> int \<Rightarrow> uuid \<Rightarrow> world \<Rightarrow> (exn + unit) \<times> world" where
  "BLEDescriptor_init self dev h u s = BLEAttribute_init self dev h u s"

definition new_BLEDescriptor :: "ref \<Rightarrow> int \<Rightarrow> uuid \<Rightarrow> world \<Rightarrow> (exn + ref) \<times> world" where
  "new_BLEDescriptor dev h u s =
     (let (self, s1) = alloc BLEDescriptor s
      in case BLEDescriptor_init self dev h u s1 of
           (Inl e, s2) \<Rightarrow> (Inl e, s2)
         | (Inr _, s2) \<Rightarrow> (Inr self, s2))"

subsection \<open>BLECharacteristic\<close>

text \<open>
  The body of the \<^verbatim>\<open>try\<close> of lines 172 to 177 for one discovered pair, on the locals
  \<^verbatim>\<open>descriptors\<close> and \<^verbatim>\<open>desc\<close> (\<open>None\<close> while \<^verbatim>\<open>desc\<close> is unbound). The
  assignment to \<^verbatim>\<open>desc\<close> happens only when the constructor has returned; the key of the
  bucket is \<^verbatim>\<open>desc.uuid\<close>, read from the new instance.
\<close>

type_synonym discover_locals = "(uuid \<times> ref list) list \<times> ref option"

definition discover_body :: "ref \<Rightarrow> item \<Rightarrow> discover_locals \<Rightarrow> world \<Rightarrow> (exn + discover_locals) \<times> world" where
  "discover_body dev it loc s =
     (case UUID (item_uuid it) of
        Inl e \<Rightarrow> (Inl e, s)
      | Inr u \<Rightarrow>
          (case new_BLEDescriptor dev (item_handle it) u s of
             (Inl e, s1) \<Rightarrow> (Inl e, s1)
           | (Inr desc, s1) \<Rightarrow>
               (case getattr uuid ''uuid'' (objects s1 desc) of
                  Inl e \<Rightarrow> (Inl e, s1)
                | Inr k \<Rightarrow>
                    if k \<in> fst ` set (fst loc)
                    then (Inr (AList.map_entry k (\<lambda>bucket. bucket @ [desc]) (fst loc), Some desc), s1)
                    else (Inr (AList.update k [desc] (fst loc), Some desc), s1))))"

text \<open>
  The \<^verbatim>\<open>for\<close> loop of lines 170 to 181 over the pairs the sequence yields:
  \<^verbatim>\<open>except RuntimeError: pass\<close> goes on with the next pair and the locals as they were,
  any other exception leaves the loop.
\<close>

fun discover_loop :: "ref \<Rightarrow> item list \<Rightarrow> discover_locals \<Rightarrow> world \<Rightarrow> (exn + discover_locals) \<times> world" where
  "discover_loop dev [] loc s = (Inr loc, s)"
| "discover_loop dev (it # its) loc s =
     (case discover_body dev it loc s of
        (Inl e, s1) \<Rightarrow> if is_RuntimeError e then discover_loop dev its loc s1 else (Inl e, s1)
      | (Inr loc1, s1) \<Rightarrow> discover_loop dev its loc1 s1)"

text \<open>
  \<^verbatim>\<open>_discover_descriptors\<close>, lines 165 to 183. The call to the requester and the
  iteration over what it returns stand outside the \<^verbatim>\<open>try\<close>: an exception from either
  leaves the method. Line 183 returns the local \<^verbatim>\<open>desc\<close>, which is unbound when no
  descriptor was constructed.
\<close>

definition BLECharacteristic_discover_descriptors :: "ref \<Rightarrow> world \<Rightarrow> (exn + pyvalue) \<times> world" where
  "BLECharacteristic_discover_descriptors self s =
     (case getattr value_handle ''value_handle'' (objects s self) of
        Inl e \<Rightarrow> (Inl e, s)
      | Inr vh \<Rightarrow>
     (case getattr end_handle ''end_handle'' (objects s self) of
        Inl e \<Rightarrow> (Inl e, s)
      | Inr eh \<Rightarrow>
          if vh + 1 > eh then (Inr (Dict []), s)
          else
     (case getattr device ''device'' (objects s self) of
        Inl e \<Rightarrow> (Inl e, s)
      | Inr dev \<Rightarrow>
          (case requester_discover_descriptors dev (vh + 1) eh s of
             ((its, raised), s1) \<Rightarrow>
               (case discover_loop dev its ([], None) s1 of
                  (Inl e, s2) \<Rightarrow> (Inl e, s2)
                | (Inr (table, desc), s2) \<Rightarrow>
                    (case raised of
                       Some e \<Rightarrow> (Inl e, s2)
                     | None \<Rightarrow>
                         (case desc of
                            None \<Rightarrow>
                              (Inl (UnboundLocalError ''local variable 'desc' referenced before assignment''), s2)
                          | Some d \<Rightarrow> (Inr (Instance d), s2))))))))"

text \<open>
  The arguments of a call, as far as the module passes them on.
  \<^verbatim>\<open>object.__init__\<close> raises \<^verbatim>\<open>TypeError\<close> when it is given any argument besides the
  instance and the instance's class defines \<^verbatim>\<open>__init__\<close>, as all three classes do.
\<close>

datatype pyarg = ArgObject ref | ArgDevice ref | ArgInt int | ArgUUID uuid

definition object_init :: "ref \<Rightarrow> pyarg list \<Rightarrow> world \<Rightarrow> (exn + unit) \<times> world" where
  "object_init self args s =
     (if args = [] then (Inr (), s)
      else (Inl (TypeError ''object.__init__() takes exactly one argument (the instance to initialize)''), s))"

text \<open>
  \<^verbatim>\<open>BLECharacteristic.__init__\<close>, lines 153 to 162. Line 132 is
  \<^verbatim>\<open>class BLECharacteristic:\<close> with no base, so
  \<^verbatim>\<open>super(BLECharacteristic, self).__init__\<close> is \<^verbatim>\<open>object.__init__\<close> bound to the
  instance, and line 153 calls it with \<^verbatim>\<open>(self, device, value_handle, uuid)\<close>.
\<close>

definition BLECharacteristic_init ::
    "ref \<Rightarrow> ref \<Rightarrow> int \<Rightarrow> int \<Rightarrow> int \<Rightarrow> uuid \<Rightarrow> int \<Rightarrow> world \<Rightarrow> (exn + unit) \<times> world" where
  "BLECharacteristic_init self dev h vh eh u props s =
     (case object_init self [ArgObject self, ArgDevice dev, ArgInt vh, ArgUUID u] s of
        (Inl e, s1) \<Rightarrow> (Inl e, s1)
      | (Inr _, s1) \<Rightarrow>
          (let s2 = setattrs self
                      (\<lambda>obj. obj\<lparr>handle := Some h, end_handle := Some eh, properties := Some props\<rparr>) s1
           in case BLECharacteristic_discover_descriptors self s2 of
                (Inl e, s3) \<Rightarrow> (Inl e, s3)
              | (Inr found, s3) \<Rightarrow>
                  (Inr (), setattrs self
                     (\<lambda>obj. obj\<lparr>priv_descriptors := Some found,
                                descriptor := Some \<lparr>accessor_table = found, return_all = False\<rparr>,
                                descriptors := Some \<lparr>accessor_table = found, return_all = True\<rparr>\<rparr>) s3)))"

definition new_BLECharacteristic ::
    "ref \<Rightarrow> int \<Rightarrow> int \<Rightarrow> int \<Rightarrow> uuid \<Rightarrow> int \<Rightarrow> world \<Rightarrow> (exn + ref) \<times> world" where
  "new_BLECharacteristic dev h vh eh u props s =
     (let (self, s1) = alloc BLECharacteristic s
      in case BLECharacteristic_init self dev h vh eh u props s1 of
           (Inl e, s2) \<Rightarrow> (Inl e, s2)
         | (Inr _, s2) \<Rightarrow> (Inr self, s2))"

subsection \<open>Test fixtures\<close>

text \<open>
  A device that registers every handle, reads the empty payload, accepts every write and
  discovers nothing; and a store with that device and one object at reference 0.
\<close>

definition quiet_device :: BLEDevice where
  "quiet_device =
     \<lparr>handles = Map.empty, calls = [], register_fault = (\<lambda>_ _. None),
      read_reply = (\<lambda>_ _. Inr []), write_reply = (\<lambda>_ _ _ _. Inr ()),
      discover_reply = (\<lambda>_ _ _. ([], None))\<rparr>"

definition test_world :: "BLEDevice \<Rightarrow> pyobject \<Rightarrow> world" where
  "test_world d obj = \<lparr>devices = (\<lambda>_. d), objects = (\<lambda>_. obj), next_ref = 1\<rparr>"

text \<open>An attribute of device 0 as \<^verbatim>\<open>BLEAttribute.__init__\<close> leaves it.\<close>

definition attribute_at :: "int \<Rightarrow> uuid \<Rightarrow> pyobject" where
  "attribute_at h u =
     (new_object BLEDescriptor)
       \<lparr>device := Some 0, value_handle := Some h, uuid := Some u,
        notification_callbacks := Some [], indication_callbacks := Some []\<rparr>"

text \<open>
  An object of device 0 carrying the attributes \<^verbatim>\<open>_discover_descriptors\<close> reads:
  what a characteristic over the handles up to \<open>eh\<close> with value handle \<open>vh\<close> would hold.
\<close>

definition characteristic_at :: "int \<Rightarrow> int \<Rightarrow> pyobject" where
  "characteristic_at vh eh =
     (new_object BLECharacteristic)\<lparr>device := Some 0, value_handle := Some vh, end_handle := Some eh\<rparr>"

definition pair :: "int \<Rightarrow> uuid \<Rightarrow> item" where
  "pair h u = \<lparr>item_handle = h, item_uuid = Hex u\<rparr>"

text \<open>A callback that returns, and one that raises.\<close>

definition listener :: "string \<Rightarrow> callback" where
  "listener name = \<lparr>cb_name = name, cb_outcome = (\<lambda>_. None)\<rparr>"

definition raiser :: "string \<Rightarrow> exn \<Rightarrow> callback" where
  "raiser name e = \<lparr>cb_name = name, cb_outcome = (\<lambda>_. Some e)\<rparr>"

text \<open>Registering a sequence of callbacks, one \<^verbatim>\<open>notify\<close> call after the other.\<close>

fun notify_all :: "pyobject \<Rightarrow> callback list \<Rightarrow> exn + pyobject" where
  "notify_all self [] = Inr self"
| "notify_all self (f # fs) =
     (case BLEAttribute_notify self f of
        Inl e \<Rightarrow> Inl e
      | Inr self1 \<Rightarrow> notify_all self1 fs)"

text \<open>
  A scripted reply: a discovery that answers one range. Two UUIDs, and the stores the
  examples run in.
\<close>

definition discovering :: "int \<Rightarrow> int \<Rightarrow> item list \<times> exn option \<Rightarrow> call list \<Rightarrow> int \<Rightarrow> int \<Rightarrow> item list \<times> exn option" where
  "discovering a b reply log a' b' = (if a' = a \<and> b' = b then reply else ([], None))"

definition uuidA :: uuid where "uuidA = bluetooth_uuid 0x2902"
definition uuidB :: uuid where "uuidB = bluetooth_uuid 0x2901"

definition three_pairs :: "item list" where
  "three_pairs = [pair 10 uuidA, pair 11 uuidB, pair 12 uuidA]"

definition three_pair_world :: world where
  "three_pair_world =
     test_world (quiet_device\<lparr>discover_reply := discovering 10 12 (three_pairs, None)\<rparr>)
       (characteristic_at 9 12)"

definition not_found :: exn where
  "not_found = RuntimeError ''Attribute can't be found within the given attribute handle range''"

text \<open>
  The range from 6 to 8 of a characteristic with value handle 5: the requester yields the
  pair at handle 6 and then reports "not found"; or its call reports "not found" at once.
\<close>

definition not_found_after_pair_world :: world where
  "not_found_after_pair_world =
     test_world (quiet_device\<lparr>discover_reply := discovering 6 8 ([pair 6 uuidA], Some not_found)\<rparr>)
       (characteristic_at 5 8)"

definition not_found_at_call_world :: world where
  "not_found_at_call_world =
     test_world (quiet_device\<lparr>discover_reply := discovering 6 8 ([], Some not_found)\<rparr>)
       (characteristic_at 5 8)"

definition unreachable_world :: world where
  "unreachable_world =
     test_world
       (quiet_device
          \<lparr>register_fault := (\<lambda>_ _. Some not_found),
           discover_reply := discovering 10 12 ([pair 10 uuidA, pair 11 uuidB], None)\<rparr>)
       (characteristic_at 9 12)"

section \<open>Properties\<close>

subsection \<open>Facts about the fixtures and the log\<close>

lemma test_world_simps:
  "devices (test_world d obj) r = d" "objects (test_world d obj) r = obj" "next_ref (test_world d obj) = 1"
  by (simp_all add: test_world_def)

lemma quiet_device_simps:
  "handles quiet_device = Map.empty" "calls quiet_device = []"
  "register_fault quiet_device log h = None" "read_reply quiet_device log h = Inr []"
  "write_reply quiet_device log h data response = Inr ()"
  "discover_reply quiet_device log a b = ([], None)"
  by (simp_all add: quiet_device_def)

lemma attribute_at_simps:
  "device (attribute_at h u) = Some 0" "value_handle (attribute_at h u) = Some h"
  "uuid (attribute_at h u) = Some u" "notification_callbacks (attribute_at h u) = Some []"
  "indication_callbacks (attribute_at h u) = Some []"
  by (simp_all add: attribute_at_def)

lemma characteristic_at_simps:
  "device (characteristic_at vh eh) = Some 0" "value_handle (characteristic_at vh eh) = Some vh"
  "end_handle (characteristic_at vh eh) = Some eh"
  by (simp_all add: characteristic_at_def)

lemma calls_log_call:
  "calls (devices (log_call dev c s) d) =
     (if d = dev then calls (devices s dev) @ [c] else calls (devices s d))"
  by (simp add: log_call_def)

subsection \<open>The shortest form of a UUID\<close>

lemma bluetooth_base_take_bit: "take_bit 96 bluetooth_base = bluetooth_base"
  by (simp add: bluetooth_base_def)

lemma bit_bluetooth_base: "bit bluetooth_base n \<Longrightarrow> n < 96"
  using bluetooth_base_take_bit by (metis bit_take_bit_iff)

lemma segment_mask: "push_bit 96 (0xFFFF :: uuid) = push_bit 96 (mask 16)"
  by (simp add: mask_eq_exp_minus_1)

lemma is_short_uuid_mask: "is_short_uuid u \<longleftrightarrow> u AND NOT (push_bit 96 (mask 16)) = bluetooth_base"
  unfolding is_short_uuid_def segment_mask ..

lemma is_short_bluetooth_uuid: "is_short_uuid (bluetooth_uuid x)"
  unfolding is_short_uuid_mask bluetooth_uuid_def
  by (rule bit_word_eqI) (auto simp: bit_simps dest: bit_bluetooth_base bit_imp_le_length)

lemma segment_bluetooth_uuid: "ucast (drop_bit 96 (bluetooth_uuid x)) = x"
  unfolding bluetooth_uuid_def
  by (rule bit_word_eqI) (auto simp: bit_simps dest: bit_bluetooth_base)

lemma short_uuid_form:
  assumes "is_short_uuid u"
  shows "u = bluetooth_uuid (ucast (drop_bit 96 u))"
proof -
  have "u = (u AND NOT (push_bit 96 (mask 16))) OR (u AND push_bit 96 (mask 16))"
    by (rule bit_word_eqI) (auto simp: bit_simps)
  also have "u AND push_bit 96 (mask 16) = push_bit 96 (ucast (ucast (drop_bit 96 u) :: 16 word))"
    by (rule bit_word_eqI) (auto simp: bit_simps)
  finally show ?thesis
    using assms by (simp add: is_short_uuid_mask bluetooth_uuid_def)
qed

lemma is_short_uuid_iff: "is_short_uuid u \<longleftrightarrow> (\<exists>x. u = bluetooth_uuid x)"
  using short_uuid_form is_short_bluetooth_uuid by blast

lemma fifteen_mask: "(15 :: 'a::len word) = mask 4"
  by (simp add: mask_eq_exp_minus_1)

lemma unat_ucast_16_128: "unat (ucast (w :: 16 word) :: 128 word) = unat w"
proof -
  have "unat w < 2 ^ 16"
    using unsigned_less [of w] by simp
  also have "(2::nat) ^ 16 \<le> 2 ^ 128"
    by (rule power_increasing) simp_all
  finally show ?thesis
    by (simp add: unsigned_ucast_eq take_bit_nat_eq_self)
qed

text \<open>Digits 24 to 27 of a UUID are the digits of its 16-bit segment.\<close>

lemma nibble_segment:
  assumes "j < 4"
  shows "nibble (u :: uuid) (24 + j) = nibble (ucast (drop_bit 96 u) :: 16 word) j"
proof -
  have "drop_bit (4 * (24 + j)) u AND mask 4 =
        ucast (drop_bit (4 * j) (ucast (drop_bit 96 u) :: 16 word) AND mask 4)"
    using assms by (intro bit_word_eqI) (auto simp: bit_simps add.assoc)
  then show ?thesis
    by (simp add: nibble_def fifteen_mask unat_ucast_16_128)
qed

lemma slice_segment: "py_slice 4 8 (str_uuid u) = hex_of 4 (ucast (drop_bit 96 u) :: 16 word)"
proof -
  have "nibble u 27 = nibble (ucast (drop_bit 96 u) :: 16 word) 3"
       "nibble u 26 = nibble (ucast (drop_bit 96 u) :: 16 word) 2"
       "nibble u 25 = nibble (ucast (drop_bit 96 u) :: 16 word) 1"
       "nibble u 24 = nibble (ucast (drop_bit 96 u) :: 16 word) 0"
    using nibble_segment [of 3 u] nibble_segment [of 2 u] nibble_segment [of 1 u]
      nibble_segment [of 0 u] by simp_all
  then show ?thesis
    by (simp add: str_uuid_def py_slice_def hex_of_def upt_rec)
qed

lemma nibble_below_segment: "k < 24 \<Longrightarrow> nibble (bluetooth_uuid x) k = nibble bluetooth_base k"
proof -
  assume "k < 24"
  then have "drop_bit (4 * k) (bluetooth_uuid x) AND mask 4 = drop_bit (4 * k) bluetooth_base AND mask 4"
    unfolding bluetooth_uuid_def by (intro bit_word_eqI) (auto simp: bit_simps)
  then show ?thesis
    by (simp add: nibble_def fifteen_mask)
qed

lemma nibble_above_segment: "28 \<le> k \<Longrightarrow> nibble (bluetooth_uuid x) k = 0"
proof -
  assume "28 \<le> k"
  then have "drop_bit (4 * k) (bluetooth_uuid x) AND mask 4 = 0"
    unfolding bluetooth_uuid_def
    by (intro bit_word_eqI) (auto simp: bit_simps dest: bit_bluetooth_base bit_imp_le_length)
  then show ?thesis
    by (simp add: nibble_def fifteen_mask)
qed

lemma str_bluetooth_uuid:
  "str_uuid (bluetooth_uuid x) = ''0000'' @ hex_of 4 x @ ''-0000-1000-8000-00805f9b34fb''"
proof -
  have seg: "nibble (bluetooth_uuid x) 27 = nibble x 3"
       "nibble (bluetooth_uuid x) 26 = nibble x 2"
       "nibble (bluetooth_uuid x) 25 = nibble x 1"
       "nibble (bluetooth_uuid x) 24 = nibble x 0"
    using nibble_segment [of 3 "bluetooth_uuid x"] nibble_segment [of 2 "bluetooth_uuid x"]
      nibble_segment [of 1 "bluetooth_uuid x"] nibble_segment [of 0 "bluetooth_uuid x"]
    by (simp_all add: segment_bluetooth_uuid)
  show ?thesis
    by (simp add: str_uuid_def py_slice_def hex_of_def upt_rec seg nibble_below_segment
          nibble_above_segment)
       (simp add: nibble_def bluetooth_base_def hexdigits_def)
qed

text \<open>
  C9. For a UUID that is the Bluetooth base UUID with the 16-bit segment \<open>x\<close>, whose text
  is \<^verbatim>\<open>0000XXXX-0000-1000-8000-00805f9b34fb\<close>, \<^verbatim>\<open>shortest_uuid\<close> returns exactly the
  four hexadecimal digits of \<open>x\<close>; these UUIDs are the ones the short-UUID predicate
  accepts; for every other UUID \<^verbatim>\<open>shortest_uuid\<close> returns the full text unchanged.
\<close>

theorem shortest_uuid_canonical:
  "(uuid self = Some (bluetooth_uuid x) \<longrightarrow>
      BLEAttribute_shortest_uuid self = Inr (hex_of 4 x) \<and>
      str_uuid (bluetooth_uuid x) = ''0000'' @ hex_of 4 x @ ''-0000-1000-8000-00805f9b34fb'') \<and>
   (is_short_uuid u \<longleftrightarrow> (\<exists>y. u = bluetooth_uuid y)) \<and>
   (uuid self = Some u \<and> \<not> is_short_uuid u \<longrightarrow>
      BLEAttribute_shortest_uuid self = Inr (str_uuid u))"
proof (intro conjI impI)
  assume "uuid self = Some (bluetooth_uuid x)"
  then show "BLEAttribute_shortest_uuid self = Inr (hex_of 4 x)"
    by (simp add: BLEAttribute_shortest_uuid_def getattr_def is_short_bluetooth_uuid
          slice_segment segment_bluetooth_uuid)
next
  show "str_uuid (bluetooth_uuid x) = ''0000'' @ hex_of 4 x @ ''-0000-1000-8000-00805f9b34fb''"
    by (rule str_bluetooth_uuid)
next
  show "is_short_uuid u \<longleftrightarrow> (\<exists>y. u = bluetooth_uuid y)"
    by (rule is_short_uuid_iff)
next
  assume "uuid self = Some u \<and> \<not> is_short_uuid u"
  then show "BLEAttribute_shortest_uuid self = Inr (str_uuid u)"
    by (simp add: BLEAttribute_shortest_uuid_def getattr_def)
qed

theorem shortest_uuid_canonical_witness:
  "BLEAttribute_shortest_uuid (attribute_at 3 (bluetooth_uuid 0x2902)) = Inr ''2902'' \<and>
   str_uuid (bluetooth_uuid 0x2902) = ''00002902-0000-1000-8000-00805f9b34fb'' \<and>
   BLEAttribute_shortest_uuid (attribute_at 3 0x12345678123456781234567812345678) =
     Inr ''12345678-1234-5678-1234-567812345678''"
proof -
  have short: "uuid (attribute_at 3 (bluetooth_uuid 0x2902)) = Some (bluetooth_uuid 0x2902)"
    by (simp add: attribute_at_def)
  have long: "uuid (attribute_at 3 0x12345678123456781234567812345678) =
        Some 0x12345678123456781234567812345678 \<and>
      \<not> is_short_uuid 0x12345678123456781234567812345678"
    by (simp add: attribute_at_def is_short_uuid_def bluetooth_base_def)
  have digits: "hex_of 4 (0x2902 :: 16 word) = ''2902''"
    by (simp add: hex_of_def nibble_def hexdigits_def upt_rec)
  have full: "str_uuid 0x12345678123456781234567812345678 = ''12345678-1234-5678-1234-567812345678''"
    by (simp add: str_uuid_def py_slice_def hex_of_def nibble_def hexdigits_def upt_rec)
  from shortest_uuid_canonical [of "attribute_at 3 (bluetooth_uuid 0x2902)" "0x2902"] short digits
  have "BLEAttribute_shortest_uuid (attribute_at 3 (bluetooth_uuid 0x2902)) = Inr ''2902''"
    and "str_uuid (bluetooth_uuid 0x2902) = ''00002902-0000-1000-8000-00805f9b34fb''"
    by simp_all
  moreover from shortest_uuid_canonical
      [of "attribute_at 3 0x12345678123456781234567812345678" _ "0x12345678123456781234567812345678"]
    long full
  have "BLEAttribute_shortest_uuid (attribute_at 3 0x12345678123456781234567812345678) =
      Inr ''12345678-1234-5678-1234-567812345678''"
    by simp
  ultimately show ?thesis
    by simp
qed

subsection \<open>Reading and writing\<close>

text \<open>
  C7. For an attribute whose \<^verbatim>\<open>device\<close> and \<^verbatim>\<open>value_handle\<close> are set, \<^verbatim>\<open>read()\<close> makes
  exactly one call to the device, \<^verbatim>\<open>read_handle(value_handle)\<close>, and returns what that call
  returns or raises, unchanged; \<^verbatim>\<open>write(data, response)\<close> makes exactly one call,
  \<^verbatim>\<open>write_handle(value_handle, data, response)\<close>, and returns what it returns or raises.
  Nothing else in the store changes.
\<close>

theorem read_write_delegate:
  assumes "device self = Some dev" and "value_handle self = Some h"
  shows "fst (BLEAttribute_read self s) = read_reply (devices s dev) (calls (devices s dev)) h \<and>
         snd (BLEAttribute_read self s) = log_call dev (ReadHandle h) s \<and>
         calls (devices (snd (BLEAttribute_read self s)) dev) = calls (devices s dev) @ [ReadHandle h] \<and>
         fst (BLEAttribute_write self data response s) =
           write_reply (devices s dev) (calls (devices s dev)) h data response \<and>
         snd (BLEAttribute_write self data response s) = log_call dev (WriteHandle h data response) s \<and>
         calls (devices (snd (BLEAttribute_write self data response s)) dev) =
           calls (devices s dev) @ [WriteHandle h data response]"
  using assms
  by (simp add: BLEAttribute_read_def BLEAttribute_write_def getattr_def read_handle_def
        write_handle_def Let_def log_call_def)

theorem read_write_delegate_witness:
  "fst (BLEAttribute_write (attribute_at 7 (bluetooth_uuid 0x2a00)) [0xAB] False
         (test_world quiet_device (attribute_at 7 (bluetooth_uuid 0x2a00)))) = Inr () \<and>
   calls (devices (snd (BLEAttribute_write (attribute_at 7 (bluetooth_uuid 0x2a00)) [0xAB] False
         (test_world quiet_device (attribute_at 7 (bluetooth_uuid 0x2a00))))) 0) =
     [WriteHandle 7 [0xAB] False] \<and>
   fst (BLEAttribute_read (attribute_at 7 (bluetooth_uuid 0x2a00))
         (test_world quiet_device (attribute_at 7 (bluetooth_uuid 0x2a00)))) = Inr [] \<and>
   calls (devices (snd (BLEAttribute_read (attribute_at 7 (bluetooth_uuid 0x2a00))
         (test_world quiet_device (attribute_at 7 (bluetooth_uuid 0x2a00))))) 0) =
     [ReadHandle 7]"
proof -
  have attrs: "device (attribute_at 7 (bluetooth_uuid 0x2a00)) = Some 0"
    "value_handle (attribute_at 7 (bluetooth_uuid 0x2a00)) = Some 7"
    by (simp_all add: attribute_at_def)
  show ?thesis
    using read_write_delegate
      [OF attrs, of "test_world quiet_device (attribute_at 7 (bluetooth_uuid 0x2a00))" "[0xAB]" False]
    by (simp add: test_world_simps quiet_device_simps calls_log_call)
qed

subsection \<open>Callbacks\<close>

lemma call_each_all_return:
  "\<forall>f\<in>set cbs. cb_outcome f data = None \<Longrightarrow> call_each cbs data = (map (\<lambda>f. (f, data)) cbs, None)"
  by (induction cbs) simp_all

lemma call_each_first_raise:
  assumes "\<forall>f\<in>set pre. cb_outcome f data = None" and "cb_outcome cb data = Some e"
  shows "call_each (pre @ cb # post) data = (map (\<lambda>f. (f, data)) (pre @ [cb]), Some e)"
  using assms by (induction pre) simp_all

lemma notify_all_appends:
  "notification_callbacks self = Some cbs \<Longrightarrow>
   notify_all self fs = Inr (self\<lparr>notification_callbacks := Some (cbs @ fs)\<rparr>)"
proof (induction fs arbitrary: self cbs)
  case Nil
  then show ?case by simp
next
  case (Cons f fs)
  have "notification_callbacks (self\<lparr>notification_callbacks := Some (cbs @ [f])\<rparr>) = Some (cbs @ [f])"
    by simp
  from Cons.IH [OF this] Cons.prems show ?case
    by (simp add: BLEAttribute_notify_def getattr_def)
qed

text \<open>
  C6, as amended. For an attribute with callbacks \<open>cbs\<close> and every sequence \<open>fs\<close> registered
  with \<^verbatim>\<open>notify\<close>, none of which raises on the payload: registration appends \<open>fs\<close> in
  order and keeps duplicates, and dispatching calls every registered callback exactly
  once, in registration order, each with the payload.
\<close>

theorem notify_dispatch_in_order:
  assumes "notification_callbacks self = Some cbs"
    and "\<forall>f\<in>set (cbs @ fs). cb_outcome f data = None"
  shows "notify_all self fs = Inr (self\<lparr>notification_callbacks := Some (cbs @ fs)\<rparr>) \<and>
         BLEAttribute_on_notification (self\<lparr>notification_callbacks := Some (cbs @ fs)\<rparr>) data =
           (map (\<lambda>f. (f, data)) (cbs @ fs), None)"
proof
  show "notify_all self fs = Inr (self\<lparr>notification_callbacks := Some (cbs @ fs)\<rparr>)"
    using assms(1) by (rule notify_all_appends)
  show "BLEAttribute_on_notification (self\<lparr>notification_callbacks := Some (cbs @ fs)\<rparr>) data =
      (map (\<lambda>f. (f, data)) (cbs @ fs), None)"
    using call_each_all_return [OF assms(2)]
    by (simp add: BLEAttribute_on_notification_def getattr_def)
qed

theorem notify_dispatch_in_order_witness:
  "notify_all (attribute_at 3 (bluetooth_uuid 0x2a19)) [listener ''a'', listener ''b'', listener ''a''] =
     Inr ((attribute_at 3 (bluetooth_uuid 0x2a19))
            \<lparr>notification_callbacks := Some [listener ''a'', listener ''b'', listener ''a'']\<rparr>) \<and>
   BLEAttribute_on_notification
     ((attribute_at 3 (bluetooth_uuid 0x2a19))
        \<lparr>notification_callbacks := Some [listener ''a'', listener ''b'', listener ''a'']\<rparr>) [1, 2] =
     ([(listener ''a'', [1, 2]), (listener ''b'', [1, 2]), (listener ''a'', [1, 2])], None)"
proof -
  have "\<forall>f\<in>set ([] @ [listener ''a'', listener ''b'', listener ''a'']). cb_outcome f [1, 2] = None"
    by (simp add: listener_def)
  from notify_dispatch_in_order [OF attribute_at_simps(4) this]
  show ?thesis by simp
qed

text \<open>
  Without the proviso the statement fails: with a second callback that raises, the third one
  registered is never called.
\<close>

theorem notify_dispatch_counterexample:
  "notify_all (attribute_at 3 (bluetooth_uuid 0x2a19))
       [listener ''first'', raiser ''second'' (ValueError ''bad payload''), listener ''third''] =
     Inr ((attribute_at 3 (bluetooth_uuid 0x2a19))
            \<lparr>notification_callbacks :=
               Some [listener ''first'', raiser ''second'' (ValueError ''bad payload''), listener ''third'']\<rparr>) \<and>
   BLEAttribute_on_notification
     ((attribute_at 3 (bluetooth_uuid 0x2a19))
        \<lparr>notification_callbacks :=
           Some [listener ''first'', raiser ''second'' (ValueError ''bad payload''), listener ''third'']\<rparr>)
     [1, 2] =
     ([(listener ''first'', [1, 2]), (raiser ''second'' (ValueError ''bad payload''), [1, 2])],
      Some (ValueError ''bad payload''))"
  by (simp add: attribute_at_def BLEAttribute_notify_def BLEAttribute_on_notification_def getattr_def
        listener_def raiser_def)

text \<open>
  C4, as amended. When a registered callback raises during a dispatch, the callbacks
  registered before it have been called, the exception leaves \<^verbatim>\<open>_on_notification\<close>, and no
  callback registered after it is called in that dispatch.
\<close>

theorem dispatch_ends_at_first_raise:
  assumes "notification_callbacks self = Some (pre @ cb # post)"
    and "\<forall>f\<in>set pre. cb_outcome f data = None"
    and "cb_outcome cb data = Some e"
  shows "BLEAttribute_on_notification self data = (map (\<lambda>f. (f, data)) (pre @ [cb]), Some e)"
  using assms(1) call_each_first_raise [OF assms(2,3)]
  by (simp add: BLEAttribute_on_notification_def getattr_def)

theorem dispatch_ends_at_first_raise_witness:
  "BLEAttribute_on_notification
     ((attribute_at 3 (bluetooth_uuid 0x2a19))
        \<lparr>notification_callbacks :=
           Some [listener ''a'', raiser ''b'' (RuntimeError ''boom''), listener ''c'']\<rparr>) [7] =
     ([(listener ''a'', [7]), (raiser ''b'' (RuntimeError ''boom''), [7])], Some (RuntimeError ''boom''))"
proof -
  have cbs: "notification_callbacks
       ((attribute_at 3 (bluetooth_uuid 0x2a19))
          \<lparr>notification_callbacks :=
             Some [listener ''a'', raiser ''b'' (RuntimeError ''boom''), listener ''c'']\<rparr>) =
     Some ([listener ''a''] @ raiser ''b'' (RuntimeError ''boom'') # [listener ''c''])"
    by simp
  have pre: "\<forall>f\<in>set [listener ''a'']. cb_outcome f [7] = None"
    by (simp add: listener_def)
  have "cb_outcome (raiser ''b'' (RuntimeError ''boom'')) [7] = Some (RuntimeError ''boom'')"
    by (simp add: raiser_def)
  from dispatch_ends_at_first_raise [OF cbs pre this] show ?thesis
    by simp
qed

text \<open>
  The statement of the specification fails: the callback registered after one that raises
  is not called.
\<close>

theorem failing_callback_counterexample:
  "BLEAttribute_on_notification
     ((attribute_at 3 (bluetooth_uuid 0x2a19))
        \<lparr>notification_callbacks := Some [raiser ''faulty'' (RuntimeError ''boom''), listener ''healthy'']\<rparr>)
     [1, 2] =
     ([(raiser ''faulty'' (RuntimeError ''boom''), [1, 2])], Some (RuntimeError ''boom'')) \<and>
   (listener ''healthy'', [1, 2]) \<notin>
     set (fst (BLEAttribute_on_notification
       ((attribute_at 3 (bluetooth_uuid 0x2a19))
          \<lparr>notification_callbacks := Some [raiser ''faulty'' (RuntimeError ''boom''), listener ''healthy'']\<rparr>)
       [1, 2]))"
  by (simp add: BLEAttribute_on_notification_def getattr_def listener_def raiser_def)

subsection \<open>Construction\<close>

lemma BLECharacteristic_init_raises:
  "BLECharacteristic_init self dev h vh eh u props s =
     (Inl (TypeError ''object.__init__() takes exactly one argument (the instance to initialize)''), s)"
  by (simp add: BLECharacteristic_init_def object_init_def)

lemma new_BLECharacteristic_raises:
  "new_BLECharacteristic dev h vh eh u props s =
     (Inl (TypeError ''object.__init__() takes exactly one argument (the instance to initialize)''),
      snd (alloc BLECharacteristic s))"
  by (simp add: new_BLECharacteristic_def BLECharacteristic_init_raises split: prod.splits)

text \<open>
  C2. Specified: constructing a characteristic succeeds and sets its fields. Here:
  for every argument tuple and every store the constructor raises \<^verbatim>\<open>TypeError\<close> at
  line 153, leaves every device as it was, and leaves the allocated instance without any
  attribute.
\<close>

theorem characteristic_construction_raises:
  "fst (new_BLECharacteristic dev h vh eh u props s) =
     Inl (TypeError ''object.__init__() takes exactly one argument (the instance to initialize)'') \<and>
   devices (snd (new_BLECharacteristic dev h vh eh u props s)) = devices s \<and>
   objects (snd (new_BLECharacteristic dev h vh eh u props s)) =
     (objects s)(next_ref s := new_object BLECharacteristic)"
  by (simp add: new_BLECharacteristic_raises alloc_def)

lemma BLEAttribute_init_registers:
  assumes "BLEAttribute_init self dev h u s = (Inr x, s')"
  shows "handles (devices s' dev) h = Some self \<and>
         calls (devices s' dev) = calls (devices s dev) @ [RegisterHandle h self] \<and>
         device (objects s' self) = Some dev \<and> value_handle (objects s' self) = Some h \<and>
         uuid (objects s' self) = Some u \<and>
         notification_callbacks (objects s' self) = Some [] \<and>
         indication_callbacks (objects s' self) = Some []"
  using assms
  by (auto simp: BLEAttribute_init_def register_handle_def setattrs_def log_call_def Let_def
      split: option.splits)

text \<open>
  A descriptor that has been constructed is registered: the sibling class, which names
  \<^verbatim>\<open>BLEAttribute\<close> as its base, reaches line 52.
\<close>

lemma descriptor_construction_registers:
  assumes "new_BLEDescriptor dev h u s = (Inr self, s')"
  shows "handles (devices s' dev) h = Some self \<and>
         calls (devices s' dev) = calls (devices s dev) @ [RegisterHandle h self] \<and>
         device (objects s' self) = Some dev \<and> value_handle (objects s' self) = Some h"
proof -
  from assms obtain x where "BLEAttribute_init self dev h u (snd (alloc BLEDescriptor s)) = (Inr x, s')"
    by (auto simp: new_BLEDescriptor_def BLEDescriptor_init_def alloc_def split: prod.splits sum.splits)
  from BLEAttribute_init_registers [OF this] show ?thesis
    by (simp add: alloc_def)
qed

text \<open>
  C3. Specified: constructing an attribute, characteristic or descriptor, registers it in
  its device's registry under its value handle before the constructor returns. Here: for
  every argument tuple and every store, constructing a characteristic raises
  \<^verbatim>\<open>TypeError\<close> at line 153, before \<^verbatim>\<open>BLEAttribute.__init__\<close> and its call of
  \<^verbatim>\<open>register_handle\<close> are reached: no device receives a call, every registry is as it
  was, and the value handle is bound to no characteristic.
\<close>

theorem characteristic_never_registered:
  "fst (new_BLECharacteristic dev h vh eh u props s) =
     Inl (TypeError ''object.__init__() takes exactly one argument (the instance to initialize)'') \<and>
   (\<forall>d. calls (devices (snd (new_BLECharacteristic dev h vh eh u props s)) d) = calls (devices s d)) \<and>
   (\<forall>d. handles (devices (snd (new_BLECharacteristic dev h vh eh u props s)) d) = handles (devices s d)) \<and>
   handles (devices (snd (new_BLECharacteristic dev h vh eh u props s)) dev) vh =
     handles (devices s dev) vh \<and>
   value_handle (objects (snd (new_BLECharacteristic dev h vh eh u props s)) (next_ref s)) = None"
  by (simp add: new_BLECharacteristic_raises alloc_def new_object_def)

subsection \<open>Descriptor discovery\<close>

text \<open>
  C8. For a characteristic with \<open>value_handle + 1 > end_handle\<close>, \<^verbatim>\<open>_discover_descriptors\<close>
  returns the empty dict and leaves the store as it was: no device receives a call.
\<close>

theorem empty_range_no_discovery:
  assumes "value_handle (objects s self) = Some vh"
    and "end_handle (objects s self) = Some eh"
    and "vh + 1 > eh"
  shows "BLECharacteristic_discover_descriptors self s = (Inr (Dict []), s) \<and>
         (\<forall>d. calls (devices (snd (BLECharacteristic_discover_descriptors self s)) d) =
              calls (devices s d))"
  using assms by (simp add: BLECharacteristic_discover_descriptors_def getattr_def)

theorem empty_range_no_discovery_witness:
  "BLECharacteristic_discover_descriptors 0
     (test_world (quiet_device\<lparr>discover_reply := (\<lambda>_ _ _. ([pair 13 (bluetooth_uuid 0x2902)], None))\<rparr>)
        (characteristic_at 12 12)) =
   (Inr (Dict []),
    test_world (quiet_device\<lparr>discover_reply := (\<lambda>_ _ _. ([pair 13 (bluetooth_uuid 0x2902)], None))\<rparr>)
        (characteristic_at 12 12)) \<and>
   calls (devices (snd (BLECharacteristic_discover_descriptors 0
     (test_world (quiet_device\<lparr>discover_reply := (\<lambda>_ _ _. ([pair 13 (bluetooth_uuid 0x2902)], None))\<rparr>)
        (characteristic_at 12 12)))) 0) = []"
  using empty_range_no_discovery [of
      "test_world (quiet_device\<lparr>discover_reply := (\<lambda>_ _ _. ([pair 13 (bluetooth_uuid 0x2902)], None))\<rparr>)
        (characteristic_at 12 12)" 0 12 12]
  by (simp add: test_world_simps characteristic_at_simps quiet_device_simps)

lemma new_BLEDescriptor_frame:
  "register_fault (devices (snd (new_BLEDescriptor dev h u s)) d) = register_fault (devices s d)"
  by (simp add: new_BLEDescriptor_def BLEDescriptor_init_def BLEAttribute_init_def alloc_def
      register_handle_def setattrs_def log_call_def Let_def split: option.splits)

lemma new_BLEDescriptor_fault:
  "register_fault (devices s dev) (calls (devices s dev)) h = Some e \<Longrightarrow>
   fst (new_BLEDescriptor dev h u s) = Inl e"
  by (simp add: new_BLEDescriptor_def BLEDescriptor_init_def BLEAttribute_init_def alloc_def
      register_handle_def setattrs_def log_call_def Let_def)

lemma discover_body_fault:
  assumes "item_uuid it = Hex u"
    and "register_fault (devices s dev) (calls (devices s dev)) (item_handle it) = Some e"
  shows "discover_body dev it loc s = (Inl e, snd (new_BLEDescriptor dev (item_handle it) u s))"
proof -
  obtain s1 where "new_BLEDescriptor dev (item_handle it) u s = (Inl e, s1)"
    using new_BLEDescriptor_fault [OF assms(2), of u]
    by (cases "new_BLEDescriptor dev (item_handle it) u s") simp
  then show ?thesis
    using assms(1) by (simp add: discover_body_def)
qed

lemma discover_loop_all_fail:
  assumes "\<forall>it\<in>set its. \<exists>u. item_uuid it = Hex u"
    and "\<forall>it\<in>set its. \<forall>log. \<exists>m. register_fault (devices s dev) log (item_handle it) = Some (RuntimeError m)"
  shows "fst (discover_loop dev its loc s) = Inr loc"
  using assms
proof (induction its arbitrary: s)
  case Nil
  then show ?case by simp
next
  case (Cons it its)
  from Cons.prems obtain u m where u: "item_uuid it = Hex u"
    and m: "register_fault (devices s dev) (calls (devices s dev)) (item_handle it) = Some (RuntimeError m)"
    by (meson list.set_intros(1))
  let ?s1 = "snd (new_BLEDescriptor dev (item_handle it) u s)"
  have body: "discover_body dev it loc s = (Inl (RuntimeError m), ?s1)"
    using u m by (rule discover_body_fault)
  have "fst (discover_loop dev its loc ?s1) = Inr loc"
    using Cons.prems by (intro Cons.IH) (simp_all add: new_BLEDescriptor_frame)
  with body show ?case by simp
qed

lemma uuidA_neq_uuidB: "uuidA \<noteq> uuidB" "uuidB \<noteq> uuidA"
  by (simp_all add: uuidA_def uuidB_def bluetooth_uuid_def bluetooth_base_def)

lemmas discovery_defs =
  BLECharacteristic_discover_descriptors_def requester_discover_descriptors_def discover_body_def
  new_BLEDescriptor_def BLEDescriptor_init_def BLEAttribute_init_def alloc_def setattrs_def
  register_handle_def log_call_def getattr_def Let_def

lemmas fixture_defs =
  test_world_def quiet_device_def characteristic_at_def new_object_def pair_def discovering_def

text \<open>
  C10. For a characteristic whose range is not empty, when the requester returns its
  pairs without raising and every pair's descriptor construction raises
  \<^verbatim>\<open>RuntimeError\<close> (in particular when there is no pair at all),
  \<^verbatim>\<open>_discover_descriptors\<close> raises \<^verbatim>\<open>UnboundLocalError\<close>: the local \<^verbatim>\<open>desc\<close> of line 183
  was never bound.
\<close>

theorem no_descriptor_unbound_local:
  assumes "value_handle (objects s self) = Some vh"
    and "end_handle (objects s self) = Some eh"
    and "device (objects s self) = Some dev"
    and "vh + 1 \<le> eh"
    and "discover_reply (devices s dev) (calls (devices s dev)) (vh + 1) eh = (its, None)"
    and "\<forall>it\<in>set its. \<exists>u. item_uuid it = Hex u"
    and "\<forall>it\<in>set its. \<forall>log. \<exists>m.
           register_fault (devices s dev) log (item_handle it) = Some (RuntimeError m)"
  shows "fst (BLECharacteristic_discover_descriptors self s) =
           Inl (UnboundLocalError ''local variable 'desc' referenced before assignment'')"
proof -
  let ?s1 = "log_call dev (DiscoverDescriptors (vh + 1) eh) s"
  have "register_fault (devices ?s1 dev) = register_fault (devices s dev)"
    by (simp add: log_call_def)
  with assms(6,7) have "fst (discover_loop dev its ([], None) ?s1) = Inr ([], None)"
    by (intro discover_loop_all_fail) simp_all
  then obtain s2 where "discover_loop dev its ([], None) ?s1 = (Inr ([], None), s2)"
    by (cases "discover_loop dev its ([], None) ?s1") simp
  then show ?thesis
    using assms(1-5)
    by (simp add: BLECharacteristic_discover_descriptors_def getattr_def
        requester_discover_descriptors_def Let_def)
qed

theorem no_descriptor_unbound_local_witness:
  "fst (BLECharacteristic_discover_descriptors 0 (test_world quiet_device (characteristic_at 9 12))) =
     Inl (UnboundLocalError ''local variable 'desc' referenced before assignment'') \<and>
   fst (BLECharacteristic_discover_descriptors 0 unreachable_world) =
     Inl (UnboundLocalError ''local variable 'desc' referenced before assignment'')"
proof -
  have "fst (BLECharacteristic_discover_descriptors 0 (test_world quiet_device (characteristic_at 9 12))) =
     Inl (UnboundLocalError ''local variable 'desc' referenced before assignment'')"
    by (rule no_descriptor_unbound_local [where vh = 9 and eh = 12 and dev = 0 and its = "[]"])
      (simp_all add: test_world_simps characteristic_at_simps quiet_device_simps)
  moreover have "fst (BLECharacteristic_discover_descriptors 0 unreachable_world) =
     Inl (UnboundLocalError ''local variable 'desc' referenced before assignment'')"
    by (rule no_descriptor_unbound_local
          [where vh = 9 and eh = 12 and dev = 0 and its = "[pair 10 uuidA, pair 11 uuidB]"])
      (simp_all add: unreachable_world_def test_world_simps characteristic_at_simps discovering_def
         pair_def not_found_def)
  ultimately show ?thesis ..
qed

text \<open>
  C1. Specified: the accessor is built over the per-UUID buckets. Here: over the
  range from 10 to 12 with the pairs (10, A), (11, B), (12, A), the loop builds the
  buckets A: [first, third], B: [second], for which the specified lookups would hold,
  but \<^verbatim>\<open>_discover_descriptors\<close> returns the instance constructed last, the descriptor at
  handle 12, and not the buckets.
\<close>

theorem three_pairs_return_last_descriptor:
  "fst (BLECharacteristic_discover_descriptors 0 three_pair_world) = Inr (Instance 3) \<and>
   value_handle (objects (snd (BLECharacteristic_discover_descriptors 0 three_pair_world)) 3) = Some 12 \<and>
   fst (discover_loop 0 three_pairs ([], None) (log_call 0 (DiscoverDescriptors 10 12) three_pair_world)) =
     Inr ([(uuidA, [1, 3]), (uuidB, [2])], Some 3) \<and>
   get_all [(uuidA, [1, 3]), (uuidB, [2])] uuidA = [1, 3] \<and>
   get_unique [(uuidA, [1, 3]), (uuidB, [2])] uuidA = Inl AmbiguousKey \<and>
   get_unique [(uuidA, [1, 3]), (uuidB, [2])] uuidB = Inr 2"
  by (simp add: three_pair_world_def three_pairs_def discovery_defs fixture_defs uuidA_neq_uuidB
        get_all_def get_unique_def)

text \<open>The method never returns a dict with an entry.\<close>

lemma discover_descriptors_dict_empty:
  "fst (BLECharacteristic_discover_descriptors self s) = Inr (Dict table) \<Longrightarrow> table = []"
  by (auto simp: BLECharacteristic_discover_descriptors_def getattr_def
      split: option.splits sum.splits prod.splits if_splits)

text \<open>
  What the handler of line 178 covers: no exception that \<^verbatim>\<open>except RuntimeError\<close> catches
  leaves the loop body.
\<close>

lemma discover_loop_no_RuntimeError:
  "fst (discover_loop dev its loc s) = Inl e \<Longrightarrow> \<not> is_RuntimeError e"
proof (induction its arbitrary: loc s)
  case Nil
  then show ?case by simp
next
  case (Cons it its)
  obtain r s1 where body: "discover_body dev it loc s = (r, s1)"
    by (cases "discover_body dev it loc s")
  show ?case
  proof (cases r)
    case (Inl e')
    with body Cons.prems Cons.IH [of loc s1] show ?thesis
      by (cases "is_RuntimeError e'") simp_all
  next
    case (Inr loc1)
    with body Cons.prems Cons.IH [of loc1 s1] show ?thesis
      by simp
  qed
qed

text \<open>
  What it does not cover: the call to the requester and the iteration over its result
  stand in the header of the \<^verbatim>\<open>for\<close> statement, outside the \<^verbatim>\<open>try\<close>. When the requester
  raises, at the call or after some pairs, the method raises; when it raises at the call,
  the method raises that very exception.
\<close>

lemma requester_exception_aborts:
  assumes "device (objects s self) = Some dev"
    and "value_handle (objects s self) = Some vh"
    and "end_handle (objects s self) = Some eh"
    and "vh + 1 \<le> eh"
    and "discover_reply (devices s dev) (calls (devices s dev)) (vh + 1) eh = (its, Some e)"
  shows "\<exists>e'. fst (BLECharacteristic_discover_descriptors self s) = Inl e'"
  using assms
  by (auto simp: BLECharacteristic_discover_descriptors_def getattr_def
      requester_discover_descriptors_def Let_def split: sum.splits prod.splits)

lemma requester_exception_propagates:
  assumes "device (objects s self) = Some dev"
    and "value_handle (objects s self) = Some vh"
    and "end_handle (objects s self) = Some eh"
    and "vh + 1 \<le> eh"
    and "discover_reply (devices s dev) (calls (devices s dev)) (vh + 1) eh = ([], Some e)"
  shows "BLECharacteristic_discover_descriptors self s =
           (Inl e, log_call dev (DiscoverDescriptors (vh + 1) eh) s)"
  using assms
  by (simp add: BLECharacteristic_discover_descriptors_def getattr_def
      requester_discover_descriptors_def Let_def)

text \<open>
  C5. Specified: a "not found" reported by the transport during descriptor discovery does
  not propagate, and one pair followed by "not found" over the range from 6 to 8 yields a
  one-element descriptor set. Here: in that scenario the requester's \<^verbatim>\<open>RuntimeError\<close>
  leaves \<^verbatim>\<open>_discover_descriptors\<close>, after the descriptor at handle 6 has been constructed
  and registered; and when the requester's call itself reports "not found", the same
  exception leaves the method. The exception is one \<^verbatim>\<open>except RuntimeError\<close> would catch.
\<close>

theorem not_found_propagates:
  "fst (BLECharacteristic_discover_descriptors 0 not_found_after_pair_world) = Inl not_found \<and>
   calls (devices (snd (BLECharacteristic_discover_descriptors 0 not_found_after_pair_world)) 0) =
     [DiscoverDescriptors 6 8, RegisterHandle 6 1] \<and>
   handles (devices (snd (BLECharacteristic_discover_descriptors 0 not_found_after_pair_world)) 0) 6 =
     Some 1 \<and>
   fst (BLECharacteristic_discover_descriptors 0 not_found_at_call_world) = Inl not_found \<and>
   calls (devices (snd (BLECharacteristic_discover_descriptors 0 not_found_at_call_world)) 0) =
     [DiscoverDescriptors 6 8] \<and>
   is_RuntimeError not_found"
  by (simp add: not_found_after_pair_world_def not_found_at_call_world_def not_found_def
        discovery_defs fixture_defs)

end
